theory Spec2Isabelle
  imports Complex_Main
begin

section \<open>The flow-control checkpoint of \<^verbatim>\<open>flow_control/flow.py\<close>\<close>

text \<open>
  The module is Python 2 code: \<^verbatim>\<open>reduce\<close> is used as a builtin, \<^verbatim>\<open>len\<close> is
  applied to the result of \<^verbatim>\<open>filter\<close>, the result of \<^verbatim>\<open>map\<close> is traversed twice,
  and there is no \<^verbatim>\<open>from __future__ import division\<close>. The source does not
  fix the type of the numbers that the host's scores carry. This embedding takes them to
  be Python 2 integers (unbounded, so \<open>int\<close>); on these the operator \<^verbatim>\<open>/\<close> is floor
  division, which is \<open>div\<close> on \<open>int\<close>. Scores that carry floating-point numbers are
  not covered. Every raise of the source is a value \<open>Inl e\<close> of the result type.
\<close>

subsection \<open>Errors and values\<close>

datatype error = AttributeError | ZeroDivisionError | TypeError

text \<open>
  Modelled from the spec: the host's score value (the class \<^verbatim>\<open>ScoresClient.Score\<close> is
  not part of this repository's source). The code reads its two attributes
  \<^verbatim>\<open>correct\<close> and \<^verbatim>\<open>total\<close>; the selector \<open>total\<close> would clash with the
  constant of relations, so both selectors carry the prefix \<open>score_\<close>.
\<close>

record Score =
  score_correct :: int
  score_total :: int

text \<open>
  The fields of \<^verbatim>\<open>FlowCheckPointXblock\<close>, at their declared types
  (\<^verbatim>\<open>String\<close>, \<^verbatim>\<open>Integer\<close>). The four string fields that declare no default
  read \<^verbatim>\<open>None\<close> until they are set, so their values are optional strings.
\<close>

record FlowCheckPointXblock =
  display_name :: string
  action :: string
  condition :: string
  operator :: string
  ref_value :: int
  tab_to :: int
  target_url :: "string option"
  target_id :: "string option"
  message :: string
  problem_id :: "string option"
  list_of_problems :: "string option"

subsection \<open>The value providers\<close>

text \<open>
  \<^verbatim>\<open>_actions_generator\<close>, \<^verbatim>\<open>_conditions_generator\<close> and
  \<^verbatim>\<open>_operators_generator\<close>, without the leading underscore that a constant's name
  cannot have. None of them reads its argument.
\<close>

definition actions_generator :: "FlowCheckPointXblock \<Rightarrow> string list" where
  "actions_generator block =
     [''Display a message'',
      ''Redirect using jump_to_id'',
      ''Redirect to a given unit in the same subsection'',
      ''Redirect to a given URL'']"

definition conditions_generator :: "FlowCheckPointXblock \<Rightarrow> string list" where
  "conditions_generator block =
     [''Grade of a problem'',
      ''Average grade of a list of problems'']"

definition operators_generator :: "FlowCheckPointXblock \<Rightarrow> string list" where
  "operators_generator block =
     [''equal to'',
      ''not equal to'',
      ''less than or equal to'',
      ''less than'',
      ''greater than or equal to'',
      ''greater than'']"

subsection \<open>\<^verbatim>\<open>compare_scores\<close>\<close>

text \<open>Python 2 \<^verbatim>\<open>a / b\<close> on integers: floor division, raising on a zero divisor.\<close>

definition py_div :: "int \<Rightarrow> int \<Rightarrow> error + int" where
  "py_div a b = (if b = 0 then Inl ZeroDivisionError else Inr (a div b))"

text \<open>The line \<^verbatim>\<open>percentage = (correct / total) * 100\<close>.\<close>

definition percentage :: "int \<Rightarrow> int \<Rightarrow> error + int" where
  "percentage c t = (case py_div c t of Inl e \<Rightarrow> Inl e | Inr q \<Rightarrow> Inr (q * 100))"

text \<open>
  The six \<^verbatim>\<open>if\<close> statements run one after the other (none is an \<^verbatim>\<open>elif\<close>), each
  overwriting \<^verbatim>\<open>result\<close> when its string matches, in the order of the source.
\<close>

definition compare_operator :: "string \<Rightarrow> int \<Rightarrow> int \<Rightarrow> bool" where
  "compare_operator opr p r =
     (let result = False;
          result = (if opr = ''equal to'' then p = r else result);
          result = (if opr = ''not equal to'' then p \<noteq> r else result);
          result = (if opr = ''less than or equal to'' then p \<le> r else result);
          result = (if opr = ''greater than or equal to'' then p \<ge> r else result);
          result = (if opr = ''less than'' then p < r else result);
          result = (if opr = ''greater than'' then p > r else result)
      in result)"

definition compare_scores :: "FlowCheckPointXblock \<Rightarrow> int \<Rightarrow> int \<Rightarrow> error + bool" where
  "compare_scores self c t =
     (if t \<noteq> 0 then
        (case percentage c t of
           Inl e \<Rightarrow> Inl e
         | Inr p \<Rightarrow> Inr (compare_operator (operator self) p (ref_value self)))
      else Inr False)"

text \<open>
  The reading of the six operator names in the words of the specification: each name
  stands for its comparison relation, and any other string for no relation.
\<close>

definition spec_relation :: "string \<Rightarrow> (int \<Rightarrow> int \<Rightarrow> bool) option" where
  "spec_relation opr =
     (if opr = ''equal to'' then Some (\<lambda>x y. x = y)
      else if opr = ''not equal to'' then Some (\<lambda>x y. x \<noteq> y)
      else if opr = ''less than or equal to'' then Some (\<lambda>x y. x \<le> y)
      else if opr = ''less than'' then Some (\<lambda>x y. x < y)
      else if opr = ''greater than or equal to'' then Some (\<lambda>x y. x \<ge> y)
      else if opr = ''greater than'' then Some (\<lambda>x y. x > y)
      else None)"

text \<open>
  The percentage in the words of the specification: the quotient of \<open>correct\<close> by
  \<open>total\<close> in exact rational arithmetic, times 100.
\<close>

definition exact_percentage :: "int \<Rightarrow> int \<Rightarrow> rat" where
  "exact_percentage c t = (of_int c / of_int t) * 100"

subsection \<open>\<^verbatim>\<open>validate_field_data\<close>\<close>

text \<open>
  The host's \<^verbatim>\<open>ValidationMessage(type, text)\<close> and its two message types. The
  validation object is the list of the messages added so far; \<^verbatim>\<open>validation.add\<close>
  appends one. The argument \<^verbatim>\<open>data\<close> carries the fields of the block.
\<close>

datatype message_type = WARNING | ERROR

datatype ValidationMessage = ValidationMessage (msg_type: message_type) (msg_text: string)

definition validate_field_data ::
  "ValidationMessage list \<Rightarrow> FlowCheckPointXblock \<Rightarrow> ValidationMessage list" where
  "validate_field_data validation data =
     (let validation =
            (if tab_to data \<le> 0
             then validation @ [ValidationMessage ERROR
                    ''Tab to redirect to must be greater than zero'']
             else validation);
          validation =
            (if ref_value data < 0 \<or> ref_value data > 100
             then validation @ [ValidationMessage ERROR
                    ''Score percentage field must be an integer number between 0 and 100'']
             else validation)
      in validation)"

subsection \<open>Strings\<close>

text \<open>
  Python's \<^verbatim>\<open>split()\<close> without arguments, on the unicode text of a field: the
  maximal runs of non-whitespace. A character of the model is a code point below 256;
  the whitespace among these are the six ASCII separators, the four separators
  U+001C to U+001F, U+0085 and U+00A0.
\<close>

definition isspace :: "char \<Rightarrow> bool" where
  "isspace ch = (of_char ch \<in> {9, 10, 11, 12, 13, 28, 29, 30, 31, 32, 133, 160 :: nat})"

fun split_ws :: "string \<Rightarrow> string \<Rightarrow> string list" where
  "split_ws cur [] = (if cur = [] then [] else [cur])"
| "split_ws cur (ch # cs) =
     (if isspace ch
      then (if cur = [] then split_ws [] cs else cur # split_ws [] cs)
      else split_ws (cur @ [ch]) cs)"

definition split :: "string \<Rightarrow> string list" where
  "split s = split_ws [] s"

text \<open>
  The method call \<^verbatim>\<open>field.split()\<close> on the value of a field: \<^verbatim>\<open>None\<close> has no
  such method, and the call raises \<^verbatim>\<open>AttributeError\<close>.
\<close>

definition call_split :: "string option \<Rightarrow> error + string list" where
  "call_split field = (case field of None \<Rightarrow> Inl AttributeError | Some s \<Rightarrow> Inr (split s))"

text \<open>
  Python's \<^verbatim>\<open>str.split(sep)\<close> for a non-empty separator: the pieces between the
  occurrences of \<open>sep\<close>, found from the left.
\<close>

function split_sep :: "string \<Rightarrow> string \<Rightarrow> string \<Rightarrow> string list" where
  "split_sep sep cur s =
     (if s = [] then [cur]
      else if sep \<noteq> [] \<and> take (length sep) s = sep
      then cur # split_sep sep [] (drop (length sep) s)
      else split_sep sep (cur @ [hd s]) (tl s))"
  by pat_completeness auto
termination
  by (relation "measure (\<lambda>(sep, cur, s). length s)") auto

subsection \<open>The host\<close>

text \<open>
  What the courseware runtime supplies is a parameter of the model (the packages
  \<^verbatim>\<open>opaque_keys\<close> and \<^verbatim>\<open>courseware.model_data\<close> are not part of this repository's
  source): the course key's deprecated string and its two prefixes, the parser
  \<^verbatim>\<open>UsageKey.from_string\<close> (\<open>None\<close> where it raises, which is what the
  \<^verbatim>\<open>try\<close> of \<^verbatim>\<open>_get_usage_key\<close> turns a raise into), and the lookup
  \<^verbatim>\<open>scores_client.get\<close> after \<^verbatim>\<open>fetch_scores\<close> (\<open>None\<close> for a problem without
  a score).
\<close>

record 'uk host =
  to_deprecated_string :: string
  BLOCK_PREFIX :: string
  BLOCK_TYPE_PREFIX :: string
  from_string :: "string \<Rightarrow> 'uk option"
  scores_client_get :: "'uk option \<Rightarrow> Score option"

definition get_location_string :: "'uk host \<Rightarrow> string \<Rightarrow> string" where
  "get_location_string h locator =
     (let course_prefix = ''course'';
          resource = ''problem'';
          course_url = to_deprecated_string h;
          course_url = last (split_sep course_prefix [] course_url)
      in BLOCK_PREFIX h @ course_url @ ''+'' @ BLOCK_TYPE_PREFIX h @ ''@'' @ resource
           @ ''+'' @ BLOCK_PREFIX h @ ''@'' @ locator)"

definition get_usage_key :: "'uk host \<Rightarrow> string \<Rightarrow> 'uk option" where
  "get_usage_key h problem = from_string h (get_location_string h problem)"

subsection \<open>\<^verbatim>\<open>reduce\<close>\<close>

text \<open>
  The values that the reduction handles: a score of the list, or a number that an
  earlier step has computed. Reading an attribute of a number raises
  \<^verbatim>\<open>AttributeError\<close>.
\<close>

datatype pyval = PScore Score | PNum int

fun attr_correct :: "pyval \<Rightarrow> error + int" where
  "attr_correct (PScore s) = Inr (score_correct s)"
| "attr_correct (PNum n) = Inl AttributeError"

fun attr_total :: "pyval \<Rightarrow> error + int" where
  "attr_total (PScore s) = Inr (score_total s)"
| "attr_total (PNum n) = Inl AttributeError"

text \<open>\<^verbatim>\<open>lambda x, y: x.correct + y.correct\<close> and \<^verbatim>\<open>lambda x, y: x.total + y.total\<close>.\<close>

definition lambda_correct :: "pyval \<Rightarrow> pyval \<Rightarrow> error + pyval" where
  "lambda_correct x y =
     (case attr_correct x of
        Inl e \<Rightarrow> Inl e
      | Inr a \<Rightarrow> (case attr_correct y of Inl e \<Rightarrow> Inl e | Inr b \<Rightarrow> Inr (PNum (a + b))))"

definition lambda_total :: "pyval \<Rightarrow> pyval \<Rightarrow> error + pyval" where
  "lambda_total x y =
     (case attr_total x of
        Inl e \<Rightarrow> Inl e
      | Inr a \<Rightarrow> (case attr_total y of Inl e \<Rightarrow> Inl e | Inr b \<Rightarrow> Inr (PNum (a + b))))"

text \<open>
  Python 2's builtin \<^verbatim>\<open>reduce(function, sequence)\<close> without an initial value: the
  first element starts the accumulator, and an empty sequence raises \<^verbatim>\<open>TypeError\<close>.
\<close>

fun reduce_loop :: "(pyval \<Rightarrow> pyval \<Rightarrow> error + pyval) \<Rightarrow> pyval \<Rightarrow> pyval list \<Rightarrow> error + pyval" where
  "reduce_loop f acc [] = Inr acc"
| "reduce_loop f acc (y # ys) =
     (case f acc y of Inl e \<Rightarrow> Inl e | Inr acc' \<Rightarrow> reduce_loop f acc' ys)"

definition reduce :: "(pyval \<Rightarrow> pyval \<Rightarrow> error + pyval) \<Rightarrow> pyval list \<Rightarrow> error + pyval" where
  "reduce f xs = (case xs of [] \<Rightarrow> Inl TypeError | x # rest \<Rightarrow> reduce_loop f x rest)"

subsection \<open>\<^verbatim>\<open>condition_on_problem_list\<close>\<close>

text \<open>\<^verbatim>\<open>filter(None, scores)\<close>: a score is a non-empty tuple, so only \<open>None\<close> is dropped.\<close>

fun filter_None :: "'a option list \<Rightarrow> 'a list" where
  "filter_None [] = []"
| "filter_None (None # xs) = filter_None xs"
| "filter_None (Some x # xs) = x # filter_None xs"

text \<open>The lines from \<^verbatim>\<open>usages_keys = map(...)\<close> to \<^verbatim>\<open>scores = filter(None, scores)\<close>.\<close>

definition fetched_scores :: "'uk host \<Rightarrow> string list \<Rightarrow> Score list" where
  "fetched_scores h problems =
     (let usages_keys = map (get_usage_key h) problems;
          scores = map (scores_client_get h) usages_keys
      in filter_None scores)"

text \<open>
  The call \<^verbatim>\<open>self.compare_scores(correct, total)\<close> on the values the two variables
  hold. A score in place of a number is truthy and makes the division raise
  \<^verbatim>\<open>TypeError\<close>.
\<close>

definition call_compare_scores :: "FlowCheckPointXblock \<Rightarrow> pyval \<Rightarrow> pyval \<Rightarrow> error + bool" where
  "call_compare_scores self cv tv =
     (case tv of
        PScore s \<Rightarrow> Inl TypeError
      | PNum t \<Rightarrow>
          (case cv of
             PNum c \<Rightarrow> compare_scores self c t
           | PScore s \<Rightarrow> (if t \<noteq> 0 then Inl TypeError else Inr False)))"

text \<open>The two \<^verbatim>\<open>if\<close> statements on \<^verbatim>\<open>scores\<close> and the final call.\<close>

definition condition_on_scores :: "FlowCheckPointXblock \<Rightarrow> Score list \<Rightarrow> error + bool" where
  "condition_on_scores self scores =
     (let scores_reducible_length = 2;
          tv = PNum 0;
          cv = PNum 0
      in case (if scores \<noteq> [] \<and> length scores \<ge> scores_reducible_length
               then (case reduce lambda_correct (map PScore scores) of
                       Inl e \<Rightarrow> Inl e
                     | Inr cv' \<Rightarrow>
                         (case reduce lambda_total (map PScore scores) of
                            Inl e \<Rightarrow> Inl e
                          | Inr tv' \<Rightarrow> Inr (cv', tv')))
               else Inr (cv, tv)) of
           Inl e \<Rightarrow> Inl e
         | Inr (cv, tv) \<Rightarrow>
             (let (cv, tv) =
                    (if scores \<noteq> [] \<and> length scores = 1
                     then (PNum (score_correct (hd scores)), PNum (score_total (hd scores)))
                     else (cv, tv))
              in call_compare_scores self cv tv))"

definition condition_on_problem_list ::
  "FlowCheckPointXblock \<Rightarrow> 'uk host \<Rightarrow> string list \<Rightarrow> error + bool" where
  "condition_on_problem_list self h problems = condition_on_scores self (fetched_scores h problems)"

subsection \<open>\<^verbatim>\<open>get_condition_status\<close> and its handler\<close>

definition get_condition_status :: "FlowCheckPointXblock \<Rightarrow> 'uk host \<Rightarrow> error + bool" where
  "get_condition_status self h =
     (let problems = []
      in case (if condition self = ''Grade of a problem''
               then call_split (problem_id self) else Inr problems) of
           Inl e \<Rightarrow> Inl e
         | Inr problems \<Rightarrow>
             (case (if condition self = ''Average grade of a list of problems''
                    then call_split (list_of_problems self) else Inr problems) of
                Inl e \<Rightarrow> Inl e
              | Inr problems \<Rightarrow> condition_on_problem_list self h problems))"

text \<open>The dictionary that the JSON handler returns.\<close>

record response =
  success :: bool
  status :: bool

definition condition_status_handler ::
  "FlowCheckPointXblock \<Rightarrow> 'uk host \<Rightarrow> 'd \<Rightarrow> string \<Rightarrow> error + response" where
  "condition_status_handler self h data suffix =
     (case get_condition_status self h of
        Inl e \<Rightarrow> Inl e
      | Inr st \<Rightarrow> Inr \<lparr>success = True, status = st\<rparr>)"

subsection \<open>Concrete blocks and hosts\<close>

text \<open>
  The block with every field at its declared default, \<^verbatim>\<open>None\<close> where the field
  declares none.
\<close>

definition default_block :: FlowCheckPointXblock where
  "default_block =
     \<lparr>display_name = ''Flow Control'', action = ''Display a message'',
      condition = ''Grade of a problem'', operator = ''equal to'',
      ref_value = 0, tab_to = 1, target_url = None, target_id = None,
      message = '''', problem_id = None, list_of_problems = None\<rparr>"

text \<open>
  A host in which every location string is its own usage key and every problem has the
  score 1 of 1.
\<close>

definition all_scored_host :: "string host" where
  "all_scored_host =
     \<lparr>to_deprecated_string = ''course-v1:org+c+r'', BLOCK_PREFIX = ''block'',
      BLOCK_TYPE_PREFIX = ''type'', from_string = (\<lambda>loc. Some loc),
      scores_client_get = (\<lambda>uk. Some \<lparr>score_correct = 1, score_total = 1\<rparr>)\<rparr>"

section \<open>Properties of \<^verbatim>\<open>compare_scores\<close>\<close>

lemma percentage_nonzero: "t \<noteq> 0 \<Longrightarrow> percentage c t = Inr (c div t * 100)"
  by (simp add: percentage_def py_div_def)

lemma compare_scores_nonzero:
  "t \<noteq> 0 \<Longrightarrow>
   compare_scores self c t = Inr (compare_operator (operator self) (c div t * 100) (ref_value self))"
  by (simp add: compare_scores_def percentage_nonzero)

lemma compare_scores_zero: "compare_scores self c 0 = Inr False"
  by (simp add: compare_scores_def)

lemma compare_scores_returns: "\<exists>b. compare_scores self c t = Inr b"
proof (cases "t = 0")
  case True
  then show ?thesis using compare_scores_zero by blast
next
  case False
  then show ?thesis using compare_scores_nonzero by blast
qed

lemma compare_operator_listed:
  assumes "opr \<in> set (operators_generator b)"
  shows "\<exists>rel. spec_relation opr = Some rel \<and> compare_operator opr p r = rel p r"
proof -
  from assms have
    "opr = ''equal to'' \<or> opr = ''not equal to'' \<or> opr = ''less than or equal to''
      \<or> opr = ''less than'' \<or> opr = ''greater than or equal to'' \<or> opr = ''greater than''"
    unfolding operators_generator_def by simp
  then show ?thesis
  proof (elim disjE)
    assume "opr = ''equal to''"
    then show ?thesis by (simp add: spec_relation_def compare_operator_def)
  next
    assume "opr = ''not equal to''"
    then show ?thesis by (simp add: spec_relation_def compare_operator_def)
  next
    assume "opr = ''less than or equal to''"
    then show ?thesis by (simp add: spec_relation_def compare_operator_def)
  next
    assume "opr = ''less than''"
    then show ?thesis by (simp add: spec_relation_def compare_operator_def)
  next
    assume "opr = ''greater than or equal to''"
    then show ?thesis by (simp add: spec_relation_def compare_operator_def)
  next
    assume "opr = ''greater than''"
    then show ?thesis by (simp add: spec_relation_def compare_operator_def)
  qed
qed

lemma compare_operator_other:
  "opr \<notin> set (operators_generator b) \<Longrightarrow> compare_operator opr p r = False"
  by (simp add: compare_operator_def operators_generator_def)

text \<open>
  Claim C1. For a non-zero \<open>total\<close> and an operator among the six listed names,
  \<^verbatim>\<open>compare_scores\<close> returns the relation that the name stands for, applied to the
  percentage the code computes and to \<^verbatim>\<open>ref_value\<close>.
\<close>

theorem compare_scores_six_operators:
  assumes "t \<noteq> 0" and "operator self \<in> set (operators_generator self)"
  shows "\<exists>p rel. percentage c t = Inr p \<and> spec_relation (operator self) = Some rel \<and>
           compare_scores self c t = Inr (rel p (ref_value self))"
proof -
  from assms(2) obtain rel where
    rel: "spec_relation (operator self) = Some rel"
      "compare_operator (operator self) (c div t * 100) (ref_value self)
         = rel (c div t * 100) (ref_value self)"
    using compare_operator_listed by blast
  from assms(1) have "percentage c t = Inr (c div t * 100)"
    by (rule percentage_nonzero)
  moreover from assms(1) rel(2)
  have "compare_scores self c t = Inr (rel (c div t * 100) (ref_value self))"
    by (simp add: compare_scores_nonzero)
  ultimately show ?thesis using rel(1) by blast
qed

theorem compare_scores_six_operators_witness:
  "(3::int) \<noteq> 0 \<and>
   operator (default_block\<lparr>operator := ''less than'', ref_value := 250\<rparr>)
     \<in> set (operators_generator (default_block\<lparr>operator := ''less than'', ref_value := 250\<rparr>)) \<and>
   (\<exists>p rel. percentage 7 3 = Inr p \<and>
      spec_relation (operator (default_block\<lparr>operator := ''less than'', ref_value := 250\<rparr>)) = Some rel \<and>
      compare_scores (default_block\<lparr>operator := ''less than'', ref_value := 250\<rparr>) 7 3
        = Inr (rel p (ref_value (default_block\<lparr>operator := ''less than'', ref_value := 250\<rparr>))))"
  using compare_scores_six_operators
    [of 3 "default_block\<lparr>operator := ''less than'', ref_value := 250\<rparr>" 7]
  by (simp add: operators_generator_def)

text \<open>
  Claim C8. With \<open>total\<close> equal to zero \<^verbatim>\<open>compare_scores\<close> returns \<open>False\<close> for every
  operator and every \<^verbatim>\<open>ref_value\<close>; the division, which would raise on this divisor,
  is not evaluated, since the call returns a value.
\<close>

theorem compare_scores_total_zero:
  "compare_scores self c 0 = Inr False \<and> py_div c 0 = Inl ZeroDivisionError \<and>
   compare_scores self c t \<noteq> Inl ZeroDivisionError"
proof -
  obtain b where "compare_scores self c t = Inr b"
    using compare_scores_returns by blast
  then show ?thesis
    by (simp add: compare_scores_zero py_div_def)
qed

text \<open>
  Claim C9. With an operator that is none of the six listed names,
  \<^verbatim>\<open>compare_scores\<close> returns \<open>False\<close> for every \<open>correct\<close>, \<open>total\<close> and
  \<^verbatim>\<open>ref_value\<close>, and raises nothing.
\<close>

theorem compare_scores_unlisted_operator:
  assumes "operator self \<notin> set (operators_generator self)"
  shows "compare_scores self c t = Inr False"
proof (cases "t = 0")
  case True
  then show ?thesis by (simp add: compare_scores_zero)
next
  case False
  with assms show ?thesis
    by (simp add: compare_scores_nonzero compare_operator_other)
qed

theorem compare_scores_unlisted_operator_witness:
  "operator (default_block\<lparr>operator := ''between''\<rparr>)
     \<notin> set (operators_generator (default_block\<lparr>operator := ''between''\<rparr>)) \<and>
   compare_scores (default_block\<lparr>operator := ''between''\<rparr>) 1 2 = Inr False"
  using compare_scores_unlisted_operator [of "default_block\<lparr>operator := ''between''\<rparr>" 1 2]
  by (simp add: operators_generator_def)

section \<open>Properties of the score aggregation\<close>

lemma reduce_correct_two:
  "reduce lambda_correct [PScore a, PScore b] = Inr (PNum (score_correct a + score_correct b))"
  by (simp add: reduce_def lambda_correct_def)

lemma reduce_total_two:
  "reduce lambda_total [PScore a, PScore b] = Inr (PNum (score_total a + score_total b))"
  by (simp add: reduce_def lambda_total_def)

text \<open>
  From the third element on, the accumulator is the number that the first step has
  returned, and the function reads \<^verbatim>\<open>.correct\<close> of it.
\<close>

lemma reduce_correct_three:
  "reduce lambda_correct (PScore a # PScore b # y # ys) = Inl AttributeError"
  by (simp add: reduce_def lambda_correct_def)

lemma condition_on_scores_empty: "condition_on_scores self [] = compare_scores self 0 0"
  by (simp add: condition_on_scores_def call_compare_scores_def)

lemma condition_on_scores_one:
  "condition_on_scores self [a] = compare_scores self (score_correct a) (score_total a)"
  by (simp add: condition_on_scores_def call_compare_scores_def)

lemma condition_on_scores_two:
  "condition_on_scores self [a, b] =
     compare_scores self (sum_list (map score_correct [a, b])) (sum_list (map score_total [a, b]))"
  by (simp add: condition_on_scores_def call_compare_scores_def reduce_correct_two reduce_total_two)

lemma condition_on_scores_three:
  "condition_on_scores self (a # b # c # rest) = Inl AttributeError"
  by (simp add: condition_on_scores_def reduce_correct_three)

lemma condition_on_scores_at_most_two:
  assumes "length scores \<le> 2"
  shows "\<exists>b. condition_on_scores self scores = Inr b"
proof -
  from assms consider "scores = []" | a where "scores = [a]" | a b where "scores = [a, b]"
    by (cases scores rule: list.exhaust; cases "tl scores"; cases "tl (tl scores)") auto
  then show ?thesis
  proof cases
    case 1
    then show ?thesis using compare_scores_returns by (simp add: condition_on_scores_empty)
  next
    case 2
    then show ?thesis using compare_scores_returns by (simp add: condition_on_scores_one)
  next
    case 3
    then show ?thesis using compare_scores_returns by (simp only: condition_on_scores_two)
  qed
qed

lemma fetched_scores_all_scored:
  "fetched_scores all_scored_host problems
     = map (\<lambda>p. \<lparr>score_correct = 1, score_total = 1\<rparr>) problems"
  by (induction problems) (simp_all add: fetched_scores_def all_scored_host_def)

text \<open>
  Claim C2, at three scored problems. The claim asks for the sums over all the scores and
  the comparison of these; the code raises \<^verbatim>\<open>AttributeError\<close> in the first
  \<^verbatim>\<open>reduce\<close>, where the comparison of the sums 3 and 3 would have been \<open>True\<close>.
\<close>

theorem condition_on_problem_list_three_problems:
  "length (fetched_scores all_scored_host [''p1'', ''p2'', ''p3'']) = 3 \<and>
   condition_on_problem_list (default_block\<lparr>ref_value := 100\<rparr>) all_scored_host
     [''p1'', ''p2'', ''p3''] = Inl AttributeError \<and>
   compare_scores (default_block\<lparr>ref_value := 100\<rparr>)
     (sum_list (map score_correct (fetched_scores all_scored_host [''p1'', ''p2'', ''p3''])))
     (sum_list (map score_total (fetched_scores all_scored_host [''p1'', ''p2'', ''p3''])))
     = Inr True"
  by (simp add: fetched_scores_all_scored condition_on_problem_list_def
      condition_on_scores_three compare_scores_nonzero compare_operator_def default_block_def)

text \<open>
  Claim C3, from three scores on. The reduction is not total: it reaches the error of
  reading a score attribute of a number, for every list of at least three scores.
\<close>

theorem condition_on_scores_raises:
  assumes "3 \<le> length scores"
  shows "condition_on_scores self scores = Inl AttributeError"
proof -
  from assms obtain a b c rest where "scores = a # b # c # rest"
    by (cases scores; cases "tl scores"; cases "tl (tl scores)") auto
  then show ?thesis by (simp only: condition_on_scores_three)
qed

theorem condition_on_scores_raises_witness:
  "3 \<le> length [\<lparr>score_correct = 1, score_total = 2\<rparr>, \<lparr>score_correct = 0, score_total = 2\<rparr>,
      \<lparr>score_correct = 2, score_total = 2\<rparr>] \<and>
   condition_on_scores default_block
     [\<lparr>score_correct = 1, score_total = 2\<rparr>, \<lparr>score_correct = 0, score_total = 2\<rparr>,
      \<lparr>score_correct = 2, score_total = 2\<rparr>] = Inl AttributeError"
  using condition_on_scores_raises [of "[\<lparr>score_correct = 1, score_total = 2\<rparr>,
      \<lparr>score_correct = 0, score_total = 2\<rparr>, \<lparr>score_correct = 2, score_total = 2\<rparr>]" default_block]
  by simp

section \<open>Properties of \<^verbatim>\<open>get_condition_status\<close> and the handler\<close>

text \<open>
  Claim C10. With a condition that is neither of the two listed names, the problem list
  stays empty, no score is fetched, \<open>correct\<close> and \<open>total\<close> stay 0, and the status is
  \<open>False\<close>.
\<close>

theorem get_condition_status_unlisted_condition:
  assumes "condition self \<notin> set (conditions_generator self)"
  shows "get_condition_status self h = condition_on_problem_list self h [] \<and>
         fetched_scores h [] = [] \<and>
         condition_on_problem_list self h [] = compare_scores self 0 0 \<and>
         get_condition_status self h = Inr False"
proof -
  from assms have "condition self \<noteq> ''Grade of a problem''"
    and "condition self \<noteq> ''Average grade of a list of problems''"
    by (simp_all add: conditions_generator_def)
  then have "get_condition_status self h = condition_on_problem_list self h []"
    by (simp add: get_condition_status_def)
  moreover have "fetched_scores h [] = []"
    by (simp add: fetched_scores_def)
  ultimately show ?thesis
    by (simp add: condition_on_problem_list_def condition_on_scores_empty compare_scores_zero)
qed

theorem get_condition_status_unlisted_condition_witness:
  "condition (default_block\<lparr>condition := ''Always''\<rparr>)
     \<notin> set (conditions_generator (default_block\<lparr>condition := ''Always''\<rparr>)) \<and>
   get_condition_status (default_block\<lparr>condition := ''Always''\<rparr>) all_scored_host = Inr False"
  using get_condition_status_unlisted_condition
    [of "default_block\<lparr>condition := ''Always''\<rparr>" all_scored_host]
  by (simp add: conditions_generator_def compare_scores_zero)

lemma condition_status_handler_returns:
  "get_condition_status self h = Inr st \<Longrightarrow>
   condition_status_handler self h data suffix = Inr \<lparr>success = True, status = st\<rparr>"
  by (simp add: condition_status_handler_def)

lemma condition_status_handler_raises:
  "get_condition_status self h = Inl e \<Longrightarrow> condition_status_handler self h data suffix = Inl e"
  by (simp add: condition_status_handler_def)

lemma split_three: "split ''p1 p2 p3'' = [''p1'', ''p2'', ''p3'']"
  by (simp add: split_def isspace_def)

lemma split_one: "split ''p1'' = [''p1'']"
  by (simp add: split_def isspace_def)

lemma get_condition_status_one_problem:
  "get_condition_status (default_block\<lparr>problem_id := Some ''p1'', ref_value := 100\<rparr>)
     all_scored_host = Inr True"
  by (simp add: get_condition_status_def default_block_def call_split_def split_one
      condition_on_problem_list_def fetched_scores_all_scored condition_on_scores_one
      compare_scores_nonzero compare_operator_def)

text \<open>A block whose \<^verbatim>\<open>problem_id\<close> has never been set: \<^verbatim>\<open>None.split()\<close> raises.\<close>

lemma get_condition_status_unset_problem_id:
  "get_condition_status default_block h = Inl AttributeError"
  by (simp add: get_condition_status_def default_block_def call_split_def)

text \<open>
  Claim C6, on a block whose list names three scored problems. The claim asks for a
  response whose \<open>success\<close> is \<open>True\<close>, for every payload and suffix; the code returns
  no response, for the \<^verbatim>\<open>AttributeError\<close> of the reduction passes through
  \<^verbatim>\<open>get_condition_status\<close> and the handler. On one scored problem the same handler
  returns the response of the claim.
\<close>

theorem condition_status_handler_three_problems:
  "condition_status_handler
     (default_block\<lparr>condition := ''Average grade of a list of problems'',
        list_of_problems := Some ''p1 p2 p3''\<rparr>) all_scored_host () ''''
   = Inl AttributeError \<and>
   condition_status_handler
     (default_block\<lparr>problem_id := Some ''p1'', ref_value := 100\<rparr>) all_scored_host () ''''
   = Inr \<lparr>success = True, status = True\<rparr>"
proof -
  have "get_condition_status
      (default_block\<lparr>condition := ''Average grade of a list of problems'',
         list_of_problems := Some ''p1 p2 p3''\<rparr>) all_scored_host = Inl AttributeError"
    by (simp add: get_condition_status_def call_split_def split_three
        condition_on_problem_list_def fetched_scores_all_scored condition_on_scores_three)
  then show ?thesis
    by (simp add: condition_status_handler_raises condition_status_handler_returns
        get_condition_status_one_problem)
qed

section \<open>Properties of the field validation and of the value providers\<close>

text \<open>
  Claim C5. \<^verbatim>\<open>validate_field_data\<close> keeps the messages it is given and adds only
  messages of type \<open>ERROR\<close>: one when \<open>tab_to \<le> 0\<close>, one when \<open>ref_value\<close> is
  below 0 or above 100, and none exactly when \<open>tab_to > 0\<close> and
  \<open>0 \<le> ref_value \<le> 100\<close>.
\<close>

theorem validate_field_data_errors:
  "take (length validation) (validate_field_data validation data) = validation \<and>
   map msg_type (drop (length validation) (validate_field_data validation data))
     = replicate ((if tab_to data \<le> 0 then 1 else 0)
                  + (if ref_value data < 0 \<or> ref_value data > 100 then 1 else 0)) ERROR \<and>
   ((validate_field_data validation data = validation)
      = (tab_to data > 0 \<and> 0 \<le> ref_value data \<and> ref_value data \<le> 100))"
  by (simp add: validate_field_data_def Let_def not_less not_le)

text \<open>
  Claim C7. The actions offered are exactly the four strings that
  \<^verbatim>\<open>_actions_generator\<close> returns, and the default of the field \<open>action\<close> is one of
  them.
\<close>

theorem actions_generator_four_options:
  "set (actions_generator block) =
     {''Display a message'', ''Redirect using jump_to_id'',
      ''Redirect to a given unit in the same subsection'', ''Redirect to a given URL''} \<and>
   length (actions_generator block) = 4 \<and>
   distinct (actions_generator block) \<and>
   action default_block \<in> set (actions_generator block)"
  by (simp add: actions_generator_def default_block_def)

section \<open>The percentage\<close>

lemma floor_quotient_exact:
  assumes "t \<noteq> 0"
  shows "((of_int (c div t * 100) :: rat) = exact_percentage c t) = (t dvd c)"
proof
  assume eq: "(of_int (c div t * 100) :: rat) = exact_percentage c t"
  from assms have nz: "(of_int t :: rat) \<noteq> 0" by simp
  from eq have "(of_int (c div t) :: rat) * 100 = (of_int c / of_int t) * 100"
    unfolding exact_percentage_def by simp
  then have "(of_int (c div t) :: rat) = of_int c / of_int t"
    by (metis mult_right_cancel zero_neq_numeral)
  with nz have "(of_int (c div t) :: rat) * of_int t = of_int c"
    by (simp add: field_simps)
  then have "(of_int (c div t * t) :: rat) = of_int c" by simp
  then have "c div t * t = c" by (simp only: of_int_eq_iff)
  then show "t dvd c" by (metis dvd_triv_right)
next
  assume "t dvd c"
  then have "(of_int (c div t) :: rat) = of_int c / of_int t"
    by (rule of_int_div)
  then show "(of_int (c div t * 100) :: rat) = exact_percentage c t"
    by (simp add: exact_percentage_def)
qed

lemma percentage_is_floor:
  "t \<noteq> 0 \<Longrightarrow> percentage c t = Inr (\<lfloor>(of_int c / of_int t :: rat)\<rfloor> * 100)"
  by (simp add: percentage_nonzero floor_divide_of_int_eq)

text \<open>
  On integer scores the computed value is no percentage: every partial score
  \<open>0 \<le> correct < total\<close> gives 0, and only the full score gives 100.
\<close>

lemma percentage_partial_score:
  assumes "0 \<le> c" and "c < t"
  shows "percentage c t = Inr 0"
proof -
  from assms have "t \<noteq> 0" and "c div t = 0"
    by (simp_all add: div_pos_pos_trivial)
  then show ?thesis by (simp add: percentage_nonzero)
qed

lemma percentage_full_score: "t \<noteq> 0 \<Longrightarrow> percentage t t = Inr 100"
  by (simp add: percentage_nonzero)


end
